theory Spec2Isabelle
  imports Main "HOL-Library.Word"
begin

section \<open>The sealed-bid batch auction contract \<open>AdExFHEBiddingFHE\<close>\<close>

text \<open>
  A shallow embedding of the Solidity contract. Storage is a record, every external
  function is a function from the storage before the call to either an error (the
  \<open>revert\<close>, or a panic of the checked arithmetic and of array indexing of Solidity
  0.8) or the storage after it. A transaction that reverts leaves the storage as it was
  before the call: \<open>transact\<close> restores it, as the EVM does.
\<close>

subsection \<open>Value types\<close>

type_synonym uint256 = "256 word"
type_synonym uint32 = "32 word"
type_synonym address = "160 word"
type_synonym bytes32 = "256 word"
type_synonym bytes = "8 word list"

subsection \<open>The ciphertext capability\<close>

text \<open>
  Modelled from the spec: the FHE library (\<open>@fhevm/solidity/lib/FHE.sol\<close>) is imported,
  not part of the sources. Section 6 of the specification describes it as an opaque
  encrypted integer with a validity predicate, a homomorphic greater-or-equal yielding
  an encrypted boolean, the conversion of that boolean to a native one, and the
  serialisation of a handle to 32 bytes. A ciphertext is its handle together with the
  unsigned 32-bit number it encrypts; the contract reads the number only through \<open>ge\<close>.
\<close>

datatype euint32 = Euint32 (handle: bytes32) (plain: uint32)

datatype ebool = Ebool (toBool: bool)

definition isInitialized :: "euint32 \<Rightarrow> bool" where
  "isInitialized x = (handle x \<noteq> 0)"

definition ge :: "euint32 \<Rightarrow> euint32 \<Rightarrow> ebool" where
  "ge a b = Ebool (plain b \<le> plain a)"

definition toBytes32 :: "euint32 \<Rightarrow> bytes32" where
  "toBytes32 x = handle x"

subsection \<open>Errors and events\<close>

datatype panic = ArithmeticOverflow | IndexOutOfBounds

datatype error =
    NotOwner
  | NotProvider
  | Paused
  | CooldownActive
  | InvalidBatch
  | InvalidState
  | ReplayDetected
  | InvalidProof
  | NotInitialized
  | Panic panic
  | DecodeFailed

text \<open>The errors the contract declares, as opposed to the failures of the language.\<close>

fun named :: "error \<Rightarrow> bool" where
  "named (Panic p) = False"
| "named DecodeFailed = False"
| "named err = True"

datatype event =
    OwnershipTransferred address address
  | ProviderAdded address
  | ProviderRemoved address
  | PausedSet bool
  | CooldownSecondsSet uint256
  | BatchOpened uint256
  | BatchClosed uint256
  | BidSubmitted address uint256
  | DecryptionRequested uint256 uint256
  | DecryptionCompleted uint256 uint256 uint256 address

subsection \<open>Storage\<close>

record Bid =
  encryptedBidAmount :: euint32
  encryptedTargetingScore :: euint32
  bidder :: address

record DecryptionContext =
  batchId :: uint256
  stateHash :: bytes32
  processed :: bool

text \<open>
  A Solidity mapping is total: a key never written reads as the zero value. The last
  three fields are not storage variables of the contract: \<open>emitted\<close> is the event log,
  \<open>counterRequest\<close> and \<open>requested\<close> are the state of the decryption oracle (see
  \<open>requestDecryption\<close>). A revert undoes them with the rest.
\<close>

record contract =
  owner :: address
  providers :: "address \<Rightarrow> bool"
  paused :: bool
  cooldownSeconds :: uint256
  lastSubmissionTime :: "address \<Rightarrow> uint256"
  lastDecryptionRequestTime :: "address \<Rightarrow> uint256"
  batchBids :: "uint256 \<Rightarrow> Bid list"
  batchActive :: "uint256 \<Rightarrow> bool"
  batchClosed :: "uint256 \<Rightarrow> bool"
  decryptionContexts :: "uint256 \<Rightarrow> DecryptionContext"
  emitted :: "event list"
  counterRequest :: uint256
  requested :: "(uint256 \<times> bytes32 list) list"

text \<open>
  What a call sees of its transaction and of the outside: the caller, the block's
  timestamp, the contract's own address, the hash \<open>keccak256 (abi.encode (cts, addr))\<close>
  as a function of the encoded pair, and the oracle's signature check.
\<close>

record env =
  msg_sender :: address
  block_timestamp :: uint256
  this_address :: address
  keccak256 :: "bytes32 list \<times> address \<Rightarrow> bytes32"
  checkSignatures :: "uint256 \<Rightarrow> bytes \<Rightarrow> bytes \<Rightarrow> bool"

subsection \<open>Sequencing, checked arithmetic, array reads\<close>

definition andThen :: "error + 'a \<Rightarrow> ('a \<Rightarrow> error + 'b) \<Rightarrow> error + 'b" where
  "andThen r f = (case r of Inl err \<Rightarrow> Inl err | Inr x \<Rightarrow> f x)"

text \<open>Addition on \<open>uint256\<close> in Solidity 0.8 panics on overflow.\<close>

definition checked_add :: "uint256 \<Rightarrow> uint256 \<Rightarrow> error + uint256" where
  "checked_add a b =
     (if unat a + unat b < 2 ^ 256 then Inr (a + b) else Inl (Panic ArithmeticOverflow))"

text \<open>Reading a storage array out of range panics.\<close>

definition index :: "'a list \<Rightarrow> nat \<Rightarrow> error + 'a" where
  "index xs i = (if i < length xs then Inr (xs ! i) else Inl (Panic IndexOutOfBounds))"

subsection \<open>Modifiers\<close>

definition onlyOwner :: "env \<Rightarrow> contract \<Rightarrow> error + contract" where
  "onlyOwner e s = (if msg_sender e \<noteq> owner s then Inl NotOwner else Inr s)"

definition onlyProvider :: "env \<Rightarrow> contract \<Rightarrow> error + contract" where
  "onlyProvider e s = (if \<not> providers s (msg_sender e) then Inl NotProvider else Inr s)"

definition whenNotPaused :: "contract \<Rightarrow> error + contract" where
  "whenNotPaused s = (if paused s then Inl Paused else Inr s)"

definition submissionRateLimited :: "env \<Rightarrow> contract \<Rightarrow> error + contract" where
  "submissionRateLimited e s =
     andThen (checked_add (lastSubmissionTime s (msg_sender e)) (cooldownSeconds s))
       (\<lambda>deadline.
          if block_timestamp e < deadline then Inl CooldownActive
          else Inr (s\<lparr>lastSubmissionTime :=
                        (lastSubmissionTime s)(msg_sender e := block_timestamp e)\<rparr>))"

definition decryptionRateLimited :: "env \<Rightarrow> contract \<Rightarrow> error + contract" where
  "decryptionRateLimited e s =
     andThen (checked_add (lastDecryptionRequestTime s (msg_sender e)) (cooldownSeconds s))
       (\<lambda>deadline.
          if block_timestamp e < deadline then Inl CooldownActive
          else Inr (s\<lparr>lastDecryptionRequestTime :=
                        (lastDecryptionRequestTime s)(msg_sender e := block_timestamp e)\<rparr>))"

subsection \<open>Constructor and owner operations\<close>

definition emit :: "event \<Rightarrow> contract \<Rightarrow> contract" where
  "emit ev s = s\<lparr>emitted := emitted s @ [ev]\<rparr>"

definition deploy :: "env \<Rightarrow> contract" where
  "deploy e =
     \<lparr>owner = msg_sender e,
      providers = (\<lambda>_. False)(msg_sender e := True),
      paused = False,
      cooldownSeconds = 10,
      lastSubmissionTime = (\<lambda>_. 0),
      lastDecryptionRequestTime = (\<lambda>_. 0),
      batchBids = (\<lambda>_. []),
      batchActive = (\<lambda>_. False),
      batchClosed = (\<lambda>_. False),
      decryptionContexts = (\<lambda>_. \<lparr>batchId = 0, stateHash = 0, processed = False\<rparr>),
      emitted = [ProviderAdded (msg_sender e)],
      counterRequest = 0,
      requested = []\<rparr>"

definition transferOwnership :: "env \<Rightarrow> address \<Rightarrow> contract \<Rightarrow> error + contract" where
  "transferOwnership e newOwner s =
     andThen (onlyOwner e s)
       (\<lambda>s. let oldOwner = owner s in
            Inr (emit (OwnershipTransferred oldOwner newOwner) (s\<lparr>owner := newOwner\<rparr>)))"

definition addProvider :: "env \<Rightarrow> address \<Rightarrow> contract \<Rightarrow> error + contract" where
  "addProvider e provider s =
     andThen (onlyOwner e s)
       (\<lambda>s. Inr (emit (ProviderAdded provider)
                  (s\<lparr>providers := (providers s)(provider := True)\<rparr>)))"

definition removeProvider :: "env \<Rightarrow> address \<Rightarrow> contract \<Rightarrow> error + contract" where
  "removeProvider e provider s =
     andThen (onlyOwner e s)
       (\<lambda>s. Inr (emit (ProviderRemoved provider)
                  (s\<lparr>providers := (providers s)(provider := False)\<rparr>)))"

definition setPaused :: "env \<Rightarrow> bool \<Rightarrow> contract \<Rightarrow> error + contract" where
  "setPaused e p s =
     andThen (onlyOwner e s) (\<lambda>s. Inr (emit (PausedSet p) (s\<lparr>paused := p\<rparr>)))"

definition setCooldownSeconds :: "env \<Rightarrow> uint256 \<Rightarrow> contract \<Rightarrow> error + contract" where
  "setCooldownSeconds e n s =
     andThen (onlyOwner e s)
       (\<lambda>s. Inr (emit (CooldownSecondsSet n) (s\<lparr>cooldownSeconds := n\<rparr>)))"

subsection \<open>Batch lifecycle\<close>

definition openBatch :: "env \<Rightarrow> uint256 \<Rightarrow> contract \<Rightarrow> error + contract" where
  "openBatch e b s =
     andThen (onlyProvider e s) (\<lambda>s. andThen (whenNotPaused s)
       (\<lambda>s. if batchActive s b \<or> batchClosed s b then Inl InvalidBatch
            else Inr (emit (BatchOpened b) (s\<lparr>batchActive := (batchActive s)(b := True)\<rparr>))))"

definition closeBatch :: "env \<Rightarrow> uint256 \<Rightarrow> contract \<Rightarrow> error + contract" where
  "closeBatch e b s =
     andThen (onlyProvider e s) (\<lambda>s. andThen (whenNotPaused s)
       (\<lambda>s. if \<not> batchActive s b then Inl InvalidBatch
            else Inr (emit (BatchClosed b)
                       (s\<lparr>batchActive := (batchActive s)(b := False),
                          batchClosed := (batchClosed s)(b := True)\<rparr>))))"

definition initIfNeeded :: "euint32 \<Rightarrow> contract \<Rightarrow> error + contract" where
  "initIfNeeded x s = (if \<not> isInitialized x then Inl NotInitialized else Inr s)"

definition submitBid_body ::
  "env \<Rightarrow> uint256 \<Rightarrow> euint32 \<Rightarrow> euint32 \<Rightarrow> contract \<Rightarrow> error + contract" where
  "submitBid_body e b encBid encScore s =
     (if \<not> batchActive s b then Inl InvalidBatch
      else andThen (initIfNeeded encBid s) (\<lambda>s. andThen (initIfNeeded encScore s)
        (\<lambda>s. let newBid = \<lparr>encryptedBidAmount = encBid,
                            encryptedTargetingScore = encScore,
                            bidder = msg_sender e\<rparr>
             in Inr (emit (BidSubmitted (msg_sender e) b)
                      (s\<lparr>batchBids := (batchBids s)(b := batchBids s b @ [newBid])\<rparr>)))))"

definition submitBid ::
  "env \<Rightarrow> uint256 \<Rightarrow> euint32 \<Rightarrow> euint32 \<Rightarrow> contract \<Rightarrow> error + contract" where
  "submitBid e b encBid encScore s =
     andThen (whenNotPaused s) (\<lambda>s. andThen (submissionRateLimited e s)
       (\<lambda>s. submitBid_body e b encBid encScore s))"

subsection \<open>The auction resolver\<close>

text \<open>
  The loop \<open>for (i = 1; i < numBids; i++)\<close> that keeps the running highest bid and
  replaces it by the current one when \<open>currentBid.encryptedBidAmount.ge
  (highestBid.encryptedBidAmount)\<close> is true.
\<close>

function scan_bids :: "Bid list \<Rightarrow> nat \<Rightarrow> Bid \<Rightarrow> Bid" where
  "scan_bids bids i highestBid =
     (if i < length bids
      then scan_bids bids (i + 1)
             (if toBool (ge (encryptedBidAmount (bids ! i)) (encryptedBidAmount highestBid))
              then bids ! i else highestBid)
      else highestBid)"
  by pat_completeness auto
termination
  by (relation "measure (\<lambda>(bids, i, h). length bids - i)") auto

declare scan_bids.simps [simp del]

text \<open>
  The block the source writes three times, once in \<open>requestAuctionResultDecryption\<close>
  and twice in \<open>myCallback\<close>: the only bid when there is exactly one, else the scan
  started from \<open>batchBids[batchId][0]\<close>, a read that panics on an empty array.
\<close>

definition resolve :: "Bid list \<Rightarrow> error + Bid" where
  "resolve bids =
     (if length bids = 1 then index bids 0
      else andThen (index bids 0) (\<lambda>highestBid. Inr (scan_bids bids 1 highestBid)))"

subsection \<open>The decryption oracle bridge\<close>

definition hashCiphertexts :: "env \<Rightarrow> bytes32 list \<Rightarrow> bytes32" where
  "hashCiphertexts e cts = keccak256 e (cts, this_address e)"

text \<open>
  Modelled from the spec: \<open>FHE.requestDecryption\<close> belongs to the imported library. The
  specification says that the oracle accepts a list of ciphertext handles and returns
  a request identifier, and that a context is created per request, keyed by that
  identifier. The identifiers are issued from a counter, one per request, and the
  handles submitted are recorded with their identifier.
\<close>

definition requestDecryption :: "bytes32 list \<Rightarrow> contract \<Rightarrow> error + (uint256 \<times> contract)" where
  "requestDecryption cts s =
     andThen (checked_add (counterRequest s) 1)
       (\<lambda>next. Inr (counterRequest s,
                    s\<lparr>counterRequest := next,
                      requested := requested s @ [(counterRequest s, cts)]\<rparr>))"

definition requestAuctionResultDecryption_body ::
  "env \<Rightarrow> uint256 \<Rightarrow> contract \<Rightarrow> error + contract" where
  "requestAuctionResultDecryption_body e b s =
     (if \<not> batchClosed s b \<or> length (batchBids s b) = 0 then Inl InvalidBatch
      else andThen (resolve (batchBids s b))
        (\<lambda>winning.
           let cts = [toBytes32 (encryptedBidAmount winning)];
               hash = hashCiphertexts e cts
           in andThen (requestDecryption cts s)
                (\<lambda>(requestId, s).
                   Inr (emit (DecryptionRequested requestId b)
                         (s\<lparr>decryptionContexts := (decryptionContexts s)
                              (requestId := \<lparr>batchId = b, stateHash = hash,
                                             processed = False\<rparr>)\<rparr>)))))"

definition requestAuctionResultDecryption :: "env \<Rightarrow> uint256 \<Rightarrow> contract \<Rightarrow> error + contract" where
  "requestAuctionResultDecryption e b s =
     andThen (whenNotPaused s) (\<lambda>s. andThen (decryptionRateLimited e s)
       (\<lambda>s. andThen (onlyProvider e s)
         (\<lambda>s. requestAuctionResultDecryption_body e b s)))"

text \<open>
  \<open>abi.decode (cleartexts, (uint32))\<close>: the first 32 bytes, big-endian, which must be
  there and must fit 32 bits; otherwise the decoder reverts.
\<close>

definition be_nat :: "bytes \<Rightarrow> nat" where
  "be_nat bs = foldl (\<lambda>acc b. acc * 256 + unat b) 0 bs"

definition abi_decode_uint32 :: "bytes \<Rightarrow> error + uint32" where
  "abi_decode_uint32 bs =
     (if length bs < 32 then Inl DecodeFailed
      else if be_nat (take 32 bs) < 2 ^ 32 then Inr (of_nat (be_nat (take 32 bs)))
      else Inl DecodeFailed)"

definition myCallback :: "env \<Rightarrow> uint256 \<Rightarrow> bytes \<Rightarrow> bytes \<Rightarrow> contract \<Rightarrow> error + contract" where
  "myCallback e requestId cleartexts prf s =
     (if processed (decryptionContexts s requestId) then Inl ReplayDetected
      else
        let b = batchId (decryptionContexts s requestId) in
        andThen (resolve (batchBids s b))
          (\<lambda>highestBid.
             let currentCts = [toBytes32 (encryptedBidAmount highestBid)];
                 currentHash = hashCiphertexts e currentCts
             in if currentHash \<noteq> stateHash (decryptionContexts s requestId)
                then Inl InvalidState
                else if \<not> checkSignatures e requestId cleartexts prf then Inl InvalidProof
                else andThen (abi_decode_uint32 cleartexts)
                  (\<lambda>amount.
                     let winningBidAmount = (ucast amount :: uint256) in
                     andThen (resolve (batchBids s b))
                       (\<lambda>winnerBid.
                          Inr (emit (DecryptionCompleted requestId b winningBidAmount
                                       (bidder winnerBid))
                                (s\<lparr>decryptionContexts := (decryptionContexts s)
                                     (requestId := (decryptionContexts s requestId)
                                        \<lparr>processed := True\<rparr>)\<rparr>))))))"

subsection \<open>Transactions and traces\<close>

datatype call =
    TransferOwnership address
  | AddProvider address
  | RemoveProvider address
  | SetPaused bool
  | SetCooldownSeconds uint256
  | OpenBatch uint256
  | CloseBatch uint256
  | SubmitBid uint256 euint32 euint32
  | RequestAuctionResultDecryption uint256
  | MyCallback uint256 bytes bytes

fun dispatch :: "env \<Rightarrow> call \<Rightarrow> contract \<Rightarrow> error + contract" where
  "dispatch e (TransferOwnership a) s = transferOwnership e a s"
| "dispatch e (AddProvider a) s = addProvider e a s"
| "dispatch e (RemoveProvider a) s = removeProvider e a s"
| "dispatch e (SetPaused p) s = setPaused e p s"
| "dispatch e (SetCooldownSeconds n) s = setCooldownSeconds e n s"
| "dispatch e (OpenBatch b) s = openBatch e b s"
| "dispatch e (CloseBatch b) s = closeBatch e b s"
| "dispatch e (SubmitBid b x y) s = submitBid e b x y s"
| "dispatch e (RequestAuctionResultDecryption b) s = requestAuctionResultDecryption e b s"
| "dispatch e (MyCallback r c p) s = myCallback e r c p s"

datatype outcome = Success | Reverted error

text \<open>A call either commits its writes or reverts, and a revert restores the storage.\<close>

definition transact :: "env \<Rightarrow> call \<Rightarrow> contract \<Rightarrow> outcome \<times> contract" where
  "transact e c s =
     (case dispatch e c s of Inl err \<Rightarrow> (Reverted err, s) | Inr s' \<Rightarrow> (Success, s'))"

fun run :: "contract \<Rightarrow> (env \<times> call) list \<Rightarrow> contract" where
  "run s [] = s"
| "run s ((e, c) # rest) = run (snd (transact e c s)) rest"


subsection \<open>Notions the properties are stated with\<close>

text \<open>The number a bid's amount ciphertext encrypts, compared as an unsigned integer.\<close>

definition amount :: "Bid \<Rightarrow> uint32" where
  "amount b = plain (encryptedBidAmount b)"

text \<open>
  Among the first \<open>n\<close> bids, the bid at index \<open>k\<close> has an amount no smaller than any
  other, and every later one is strictly smaller: it is the last of the highest bids.
\<close>

definition latest_highest :: "Bid list \<Rightarrow> nat \<Rightarrow> nat \<Rightarrow> bool" where
  "latest_highest bids n k =
     (k < n \<and> (\<forall>j<n. amount (bids ! j) \<le> amount (bids ! k))
            \<and> (\<forall>j<n. k < j \<longrightarrow> amount (bids ! j) < amount (bids ! k)))"

definition is_latest_highest :: "Bid list \<Rightarrow> nat \<Rightarrow> bool" where
  "is_latest_highest bids k =
     (k < length bids
      \<and> (\<forall>c \<in> set bids. amount c \<le> amount (bids ! k))
      \<and> (\<forall>c \<in> set (drop (Suc k) bids). amount c < amount (bids ! k)))"

text \<open>The three states of a batch; no state is assigned when both flags are set.\<close>

datatype phase = Unopened | Active | Closed

definition batch_state :: "contract \<Rightarrow> uint256 \<Rightarrow> phase option" where
  "batch_state s b =
     (if batchActive s b \<and> batchClosed s b then None
      else if batchActive s b then Some Active
      else if batchClosed s b then Some Closed
      else Some Unopened)"

definition no_overlap :: "contract \<Rightarrow> bool" where
  "no_overlap s = (\<forall>b. \<not> (batchActive s b \<and> batchClosed s b))"

text \<open>
  The storage after a successful \<open>requestAuctionResultDecryption\<close> for batch \<open>b\<close>
  whose resolved bid is \<open>w\<close>.
\<close>

definition request_post :: "env \<Rightarrow> uint256 \<Rightarrow> Bid \<Rightarrow> contract \<Rightarrow> contract" where
  "request_post e b w s =
     s\<lparr>lastDecryptionRequestTime :=
         (lastDecryptionRequestTime s)(msg_sender e := block_timestamp e),
       counterRequest := counterRequest s + 1,
       requested := requested s @ [(counterRequest s, [toBytes32 (encryptedBidAmount w)])],
       decryptionContexts := (decryptionContexts s)
         (counterRequest s :=
            \<lparr>batchId = b,
             stateHash = hashCiphertexts e [toBytes32 (encryptedBidAmount w)],
             processed = False\<rparr>),
       emitted := emitted s @ [DecryptionRequested (counterRequest s) b]\<rparr>"

subsection \<open>Concrete scenarios\<close>

text \<open>
  Address 1 deploys the contract at time 1700000000; addresses 2 and 3 bid. The hash
  and the signature check of the scenarios are arbitrary computable stand-ins.
\<close>

definition ex_env :: env where
  "ex_env = \<lparr>msg_sender = 1, block_timestamp = 1700000000, this_address = 192,
             keccak256 = (\<lambda>(cts, a). sum_list cts + ucast a + 1),
             checkSignatures = (\<lambda>r c p. p = [1])\<rparr>"

definition at :: "address \<Rightarrow> uint256 \<Rightarrow> env" where
  "at a t = ex_env\<lparr>msg_sender := a, block_timestamp := t\<rparr>"

definition ex_cleartexts :: bytes where
  "ex_cleartexts = [0,0,0,0,0,0,0,0, 0,0,0,0,0,0,0,0, 0,0,0,0,0,0,0,0, 0,0,0,0,0,0,0,30]"

text \<open>A batch is opened, receives two bids, is closed, and its result is requested.\<close>

definition ex_trace :: "(env \<times> call) list" where
  "ex_trace =
    [(at 1 1700000000, OpenBatch 1),
     (at 2 1700000010, SubmitBid 1 (Euint32 11 10) (Euint32 12 3)),
     (at 3 1700000011, SubmitBid 1 (Euint32 21 30) (Euint32 22 4)),
     (at 1 1700000020, CloseBatch 1),
     (at 1 1700000030, RequestAuctionResultDecryption 1)]"

definition ex_pending :: contract where
  "ex_pending = run (deploy ex_env) ex_trace"

text \<open>Address 2 bids once, then the owner sets the cooldown to the largest \<open>uint256\<close>.\<close>

definition ex_long_cooldown :: contract where
  "ex_long_cooldown = run (deploy ex_env)
    [(at 1 1700000000, OpenBatch 1),
     (at 2 1700000010, SubmitBid 1 (Euint32 11 10) (Euint32 12 3)),
     (at 1 1700000012, SetCooldownSeconds
        115792089237316195423570985008687907853269984665640564039457584007913129639935)]"

definition ex_bids :: "Bid list" where
  "ex_bids =
     [\<lparr>encryptedBidAmount = Euint32 11 10, encryptedTargetingScore = Euint32 12 7, bidder = 101\<rparr>,
      \<lparr>encryptedBidAmount = Euint32 21 30, encryptedTargetingScore = Euint32 22 7, bidder = 102\<rparr>,
      \<lparr>encryptedBidAmount = Euint32 31 20, encryptedTargetingScore = Euint32 32 7, bidder = 103\<rparr>,
      \<lparr>encryptedBidAmount = Euint32 41 30, encryptedTargetingScore = Euint32 42 7, bidder = 104\<rparr>]"

text \<open>Batch 0 is opened and receives one bid; no decryption is requested.\<close>

definition ex_batch0 :: contract where
  "ex_batch0 = run (deploy ex_env)
    [(at 1 1700000000, OpenBatch 0),
     (at 2 1700000010, SubmitBid 0 (Euint32 11 10) (Euint32 12 3))]"

text \<open>The owner pauses the contract while the request of \<open>ex_trace\<close> is pending.\<close>

definition ex_paused :: contract where
  "ex_paused = run ex_pending [(at 1 1700000040, SetPaused True)]"

text \<open>
  The owner sets the cooldown to the largest \<open>uint256\<close> after having requested the
  result of \<open>ex_trace\<close>.
\<close>

definition ex_long_cooldown_pending :: contract where
  "ex_long_cooldown_pending = run ex_pending
    [(at 1 1700000041, SetCooldownSeconds
        115792089237316195423570985008687907853269984665640564039457584007913129639935)]"


section \<open>Auxiliary facts\<close>

lemma scan_bids_latest_highest:
  "i \<le> length bids \<Longrightarrow> latest_highest bids i k \<Longrightarrow>
   \<exists>k'. scan_bids bids i (bids ! k) = bids ! k' \<and> latest_highest bids (length bids) k'"
proof (induction bids i "bids ! k" arbitrary: k rule: scan_bids.induct)
  case (1 bids i)
  show ?case
  proof (cases "i < length bids")
    case False
    then have "scan_bids bids i (bids ! k) = bids ! k"
      by (subst scan_bids.simps) simp
    moreover from False "1.prems" have "i = length bids" by simp
    ultimately show ?thesis using "1.prems" by auto
  next
    case True
    let ?c = "bids ! i"
    show ?thesis
    proof (cases "amount (bids ! k) \<le> amount ?c")
      case ge: True
      have lh: "latest_highest bids (i + 1) i"
        using "1.prems"(2) ge unfolding latest_highest_def
        by (auto simp: less_Suc_eq intro: order_trans)
      have "\<exists>k'. scan_bids bids (i + 1) (bids ! i) = bids ! k' \<and> latest_highest bids (length bids) k'"
        using "1.hyps" [of i] True ge lh by (simp add: ge_def amount_def)
      then show ?thesis
        using True ge by (subst scan_bids.simps) (simp add: ge_def amount_def)
    next
      case lt: False
      have lh: "latest_highest bids (i + 1) k"
        using "1.prems"(2) lt unfolding latest_highest_def
        by (auto simp: less_Suc_eq)
      have "\<exists>k'. scan_bids bids (i + 1) (bids ! k) = bids ! k' \<and> latest_highest bids (length bids) k'"
        using "1.hyps" [of k] True lt lh by (simp add: ge_def amount_def)
      then show ?thesis
        using True lt by (subst scan_bids.simps) (simp add: ge_def amount_def)
    qed
  qed
qed

lemma latest_highest_unique:
  "latest_highest bids n k \<Longrightarrow> latest_highest bids n k' \<Longrightarrow> k = k'"
  unfolding latest_highest_def
  by (metis linorder_neqE_nat not_less)

lemma resolve_latest_highest:
  assumes "bids \<noteq> []"
  shows "\<exists>k. resolve bids = Inr (bids ! k) \<and> latest_highest bids (length bids) k"
proof (cases "length bids = 1")
  case True
  then have "latest_highest bids (length bids) 0" by (simp add: latest_highest_def)
  with True show ?thesis by (auto simp: resolve_def index_def)
next
  case False
  with assms have len: "1 \<le> length bids" by (cases bids) auto
  have "latest_highest bids 1 0" by (simp add: latest_highest_def)
  from scan_bids_latest_highest [OF len this] False assms show ?thesis
    by (auto simp: resolve_def index_def andThen_def)
qed

lemma andThen_simps [simp]:
  "andThen (Inl err) f = Inl err"
  "andThen (Inr x) f = f x"
  by (simp_all add: andThen_def)

lemma andThen_eq_Inr:
  "andThen r f = Inr y \<longleftrightarrow> (\<exists>x. r = Inr x \<and> f x = Inr y)"
  by (cases r) simp_all

lemma andThen_eq_Inl:
  "andThen r f = Inl err \<longleftrightarrow> r = Inl err \<or> (\<exists>x. r = Inr x \<and> f x = Inl err)"
  by (cases r) simp_all

lemmas modifier_defs =
  onlyOwner_def onlyProvider_def whenNotPaused_def submissionRateLimited_def
  decryptionRateLimited_def checked_add_def

lemmas function_defs =
  transferOwnership_def addProvider_def removeProvider_def setPaused_def
  setCooldownSeconds_def openBatch_def closeBatch_def submitBid_def submitBid_body_def
  initIfNeeded_def requestAuctionResultDecryption_def
  requestAuctionResultDecryption_body_def requestDecryption_def myCallback_def emit_def

lemma transact_reverted:
  "fst (transact e c s) = Reverted err \<longleftrightarrow> dispatch e c s = Inl err"
  by (simp add: transact_def split: sum.splits)

lemma transact_success:
  "fst (transact e c s) = Success \<longleftrightarrow> (\<exists>s'. dispatch e c s = Inr s')"
  by (simp add: transact_def split: sum.splits)

lemma transact_Inl: "dispatch e c s = Inl err \<Longrightarrow> transact e c s = (Reverted err, s)"
  by (simp add: transact_def)

lemma transact_Inr: "dispatch e c s = Inr s' \<Longrightarrow> transact e c s = (Success, s')"
  by (simp add: transact_def)

lemma myCallback_cases:
  "myCallback e r c p s = Inl err \<Longrightarrow>
     err \<in> {ReplayDetected, InvalidState, InvalidProof, Panic IndexOutOfBounds, DecodeFailed}"
  by (auto simp: myCallback_def Let_def andThen_eq_Inl resolve_def index_def
        abi_decode_uint32_def split: if_splits)

lemmas eval_defs =
  deploy_def ex_env_def at_def transact_def function_defs modifier_defs Let_def
  isInitialized_def resolve_def index_def scan_bids.simps ge_def toBytes32_def
  hashCiphertexts_def abi_decode_uint32_def be_nat_def ex_cleartexts_def

lemma myCallback_paused:
  "myCallback e r c p (s\<lparr>paused := b\<rparr>) = map_sum id (\<lambda>s'. s'\<lparr>paused := b\<rparr>) (myCallback e r c p s)"
  by (simp add: myCallback_def Let_def andThen_def emit_def split: sum.splits)

lemma dispatch_flags:
  "dispatch e c s = Inr s' \<Longrightarrow>
     (batchActive s' b = batchActive s b \<and> batchClosed s' b = batchClosed s b)
   \<or> (c = OpenBatch b \<and> \<not> batchActive s b \<and> \<not> batchClosed s b
        \<and> batchActive s' b \<and> \<not> batchClosed s' b)
   \<or> (c = CloseBatch b \<and> batchActive s b \<and> \<not> batchActive s' b \<and> batchClosed s' b)"
  by (cases c)
     (auto simp: function_defs modifier_defs andThen_eq_Inr Let_def split: if_splits)

lemma transact_flags:
  "(batchActive (snd (transact e c s)) b = batchActive s b
      \<and> batchClosed (snd (transact e c s)) b = batchClosed s b)
   \<or> (c = OpenBatch b \<and> \<not> batchActive s b \<and> \<not> batchClosed s b
        \<and> batchActive (snd (transact e c s)) b \<and> \<not> batchClosed (snd (transact e c s)) b)
   \<or> (c = CloseBatch b \<and> batchActive s b \<and> \<not> batchActive (snd (transact e c s)) b
        \<and> batchClosed (snd (transact e c s)) b)"
proof (cases "dispatch e c s")
  case (Inl err)
  then show ?thesis by (simp add: transact_def)
next
  case (Inr s')
  with dispatch_flags [OF Inr, of b] show ?thesis by (simp add: transact_def)
qed

lemma no_overlap_deploy: "no_overlap (deploy e)"
  by (simp add: no_overlap_def deploy_def)

lemma no_overlap_transact: "no_overlap s \<Longrightarrow> no_overlap (snd (transact e c s))"
  unfolding no_overlap_def using transact_flags [of e c s] by blast

lemma no_overlap_run: "no_overlap s \<Longrightarrow> no_overlap (run s tr)"
  by (induction s tr rule: run.induct) (simp_all add: no_overlap_transact)

lemma transact_phase:
  assumes "no_overlap s"
  shows "batch_state (snd (transact e c s)) b = batch_state s b
       \<or> (c = OpenBatch b \<and> batch_state s b = Some Unopened
            \<and> batch_state (snd (transact e c s)) b = Some Active)
       \<or> (c = CloseBatch b \<and> batch_state s b = Some Active
            \<and> batch_state (snd (transact e c s)) b = Some Closed)"
  using transact_flags [of e c s b] assms
  by (auto simp: batch_state_def no_overlap_def)

lemma opened_stays_opened:
  "no_overlap s \<Longrightarrow> batch_state s b \<noteq> Some Unopened \<Longrightarrow>
     batch_state (run s tr) b \<noteq> Some Unopened"
proof (induction s tr rule: run.induct)
  case (1 s)
  then show ?case by simp
next
  case (2 s e c rest)
  from transact_phase [OF "2.prems"(1), of e c b] "2.prems"(2)
  have "batch_state (snd (transact e c s)) b \<noteq> Some Unopened" by auto
  with "2.IH" no_overlap_transact [OF "2.prems"(1)] show ?case by simp
qed

lemma closed_stays_closed:
  "no_overlap s \<Longrightarrow> batch_state s b = Some Closed \<Longrightarrow>
     batch_state (run s tr) b = Some Closed"
proof (induction s tr rule: run.induct)
  case (1 s)
  then show ?case by simp
next
  case (2 s e c rest)
  from transact_phase [OF "2.prems"(1), of e c b] "2.prems"(2)
  have "batch_state (snd (transact e c s)) b = Some Closed" by auto
  with "2.IH" no_overlap_transact [OF "2.prems"(1)] show ?case by simp
qed

lemma openBatch_opened:
  assumes "batchActive s b \<or> batchClosed s b"
  shows "dispatch e (OpenBatch b) s =
           Inl (if \<not> providers s (msg_sender e) then NotProvider
                else if paused s then Paused else InvalidBatch)"
  using assms by (auto simp: openBatch_def modifier_defs)

lemma less_counter_suc:
  fixes r n :: uint256
  assumes "unat n + 1 < 2 ^ 256" and "r < n"
  shows "r < n + 1" and "r \<noteq> n"
proof -
  from assms(1) have "unat (n + 1) = unat n + 1"
    by (simp add: unat_word_ariths)
  with assms(2) show "r < n + 1" by (simp add: word_less_nat_alt)
  from assms(2) show "r \<noteq> n" by auto
qed

lemma request_success:
  assumes "requestAuctionResultDecryption e b s = Inr s'"
  shows "\<exists>w. batchClosed s b \<and> batchBids s b \<noteq> []
           \<and> resolve (batchBids s b) = Inr w
           \<and> unat (counterRequest s) + 1 < 2 ^ 256
           \<and> s' = request_post e b w s"
  using assms unfolding request_post_def
  by (auto simp: function_defs modifier_defs andThen_eq_Inr Let_def split: if_splits)

lemma dispatch_keeps_processed:
  assumes "dispatch e c s = Inr s'" and "r < counterRequest s"
      and "processed (decryptionContexts s r)"
  shows "r < counterRequest s' \<and> processed (decryptionContexts s' r)"
proof (cases c)
  case (RequestAuctionResultDecryption b)
  with assms(1) have "requestAuctionResultDecryption e b s = Inr s'" by simp
  from request_success [OF this] obtain w where
      n: "unat (counterRequest s) + 1 < 2 ^ 256" and eq: "s' = request_post e b w s"
    by blast
  have s': "counterRequest s' = counterRequest s + 1"
       "decryptionContexts s' r = decryptionContexts s r"
    using less_counter_suc(2) [OF n assms(2)] by (simp_all add: eq request_post_def)
  from less_counter_suc [OF n assms(2)] assms(3) s' show ?thesis by simp
next
  case (MyCallback r' c' p')
  with assms show ?thesis
    by (auto simp: function_defs andThen_eq_Inr Let_def split: if_splits)
qed (use assms in \<open>auto simp: function_defs modifier_defs andThen_eq_Inr Let_def split: if_splits\<close>)

lemma transact_keeps_processed:
  assumes "r < counterRequest s" and "processed (decryptionContexts s r)"
  shows "r < counterRequest (snd (transact e c s))
       \<and> processed (decryptionContexts (snd (transact e c s)) r)"
proof (cases "dispatch e c s")
  case (Inl err)
  with assms show ?thesis by (simp add: transact_def)
next
  case (Inr s')
  with dispatch_keeps_processed [OF Inr assms] show ?thesis by (simp add: transact_def)
qed

lemma run_keeps_processed:
  "r < counterRequest s \<Longrightarrow> processed (decryptionContexts s r) \<Longrightarrow>
     r < counterRequest (run s tr) \<and> processed (decryptionContexts (run s tr) r)"
proof (induction s tr rule: run.induct)
  case (1 s)
  then show ?case by simp
next
  case (2 s e c rest)
  from transact_keeps_processed [OF "2.prems", of e c] "2.IH" show ?case by simp
qed

lemma myCallback_success:
  "myCallback e r c p s = Inr s' \<Longrightarrow>
     \<not> processed (decryptionContexts s r) \<and> processed (decryptionContexts s' r)
     \<and> counterRequest s' = counterRequest s"
  by (auto simp: myCallback_def emit_def andThen_eq_Inr Let_def split: if_splits)

lemma myCallback_replay:
  "processed (decryptionContexts s r) \<Longrightarrow> myCallback e r c p s = Inl ReplayDetected"
  by (simp add: myCallback_def)

lemma is_latest_highest_iff:
  "is_latest_highest bids k = latest_highest bids (length bids) k"
proof -
  have "(\<forall>c \<in> set (drop (Suc k) bids). amount c < amount (bids ! k))
      = (\<forall>j<length bids. k < j \<longrightarrow> amount (bids ! j) < amount (bids ! k))"
  proof (intro iffI allI impI ballI)
    fix j assume a: "\<forall>c \<in> set (drop (Suc k) bids). amount c < amount (bids ! k)"
      and j: "j < length bids" "k < j"
    then have "bids ! j = drop (Suc k) bids ! (j - Suc k)" "j - Suc k < length (drop (Suc k) bids)"
      by auto
    then have "bids ! j \<in> set (drop (Suc k) bids)" by (metis nth_mem)
    with a show "amount (bids ! j) < amount (bids ! k)" by blast
  next
    fix c assume a: "\<forall>j<length bids. k < j \<longrightarrow> amount (bids ! j) < amount (bids ! k)"
      and c: "c \<in> set (drop (Suc k) bids)"
    then obtain i where "i < length (drop (Suc k) bids)" "c = drop (Suc k) bids ! i"
      by (metis in_set_conv_nth)
    then have "c = bids ! (Suc k + i)" "Suc k + i < length bids" by auto
    with a show "amount c < amount (bids ! k)" by auto
  qed
  moreover have "(\<forall>c \<in> set bids. amount c \<le> amount (bids ! k))
      = (\<forall>j<length bids. amount (bids ! j) \<le> amount (bids ! k))"
    by (rule all_set_conv_all_nth)
  ultimately show ?thesis
    by (simp add: is_latest_highest_def latest_highest_def)
qed

lemma resolve_is_latest_highest:
  "bids \<noteq> [] \<Longrightarrow> \<exists>k. resolve bids = Inr (bids ! k) \<and> is_latest_highest bids k"
  using resolve_latest_highest [of bids] by (simp add: is_latest_highest_iff)

lemma checked_add_no_overflow:
  "unat a + unat b < 2 ^ 256 \<Longrightarrow> checked_add a b = Inr (a + b)"
  by (simp add: checked_add_def)

lemma less_sum_no_overflow:
  fixes last cd t :: uint256
  assumes "unat last + unat cd < 2 ^ 256"
  shows "t < last + cd \<longleftrightarrow> unat t < unat last + unat cd"
proof -
  from assms have "unat (last + cd) = unat last + unat cd"
    by (simp add: unat_word_ariths)
  then show ?thesis by (simp add: word_less_nat_alt)
qed

lemma submissionRateLimited_no_overflow:
  assumes "unat (lastSubmissionTime s (msg_sender e)) + unat (cooldownSeconds s) < 2 ^ 256"
  shows "submissionRateLimited e s =
     (if unat (block_timestamp e) < unat (lastSubmissionTime s (msg_sender e)) + unat (cooldownSeconds s)
      then Inl CooldownActive
      else Inr (s\<lparr>lastSubmissionTime := (lastSubmissionTime s)(msg_sender e := block_timestamp e)\<rparr>))"
  using checked_add_no_overflow [OF assms] less_sum_no_overflow [OF assms, of "block_timestamp e"]
  by (simp add: submissionRateLimited_def)

lemma decryptionRateLimited_no_overflow:
  assumes "unat (lastDecryptionRequestTime s (msg_sender e)) + unat (cooldownSeconds s) < 2 ^ 256"
  shows "decryptionRateLimited e s =
     (if unat (block_timestamp e) < unat (lastDecryptionRequestTime s (msg_sender e)) + unat (cooldownSeconds s)
      then Inl CooldownActive
      else Inr (s\<lparr>lastDecryptionRequestTime := (lastDecryptionRequestTime s)(msg_sender e := block_timestamp e)\<rparr>))"
  using checked_add_no_overflow [OF assms] less_sum_no_overflow [OF assms, of "block_timestamp e"]
  by (simp add: decryptionRateLimited_def)

lemma submitBid_not_cooldown:
  "submissionRateLimited e s = Inr s1 \<Longrightarrow> submitBid e b x y s \<noteq> Inl CooldownActive"
  by (auto simp: submitBid_def submitBid_body_def whenNotPaused_def initIfNeeded_def
      Let_def andThen_def split: if_splits sum.splits)

lemma request_not_cooldown:
  "decryptionRateLimited e s = Inr s1 \<Longrightarrow> requestAuctionResultDecryption e b s \<noteq> Inl CooldownActive"
  by (auto simp: requestAuctionResultDecryption_def requestAuctionResultDecryption_body_def
      whenNotPaused_def onlyProvider_def requestDecryption_def checked_add_def resolve_def index_def
      Let_def andThen_def split: if_splits sum.splits)

lemma submitBid_other_timestamp:
  "submitBid e b x y (s\<lparr>lastDecryptionRequestTime := f\<rparr>)
     = map_sum id (\<lambda>s'. s'\<lparr>lastDecryptionRequestTime := f\<rparr>) (submitBid e b x y s)"
  by (auto simp: submitBid_def submitBid_body_def whenNotPaused_def initIfNeeded_def emit_def
      submissionRateLimited_def checked_add_def Let_def)

lemma request_other_timestamp:
  "requestAuctionResultDecryption e b (s\<lparr>lastSubmissionTime := f\<rparr>)
     = map_sum id (\<lambda>s'. s'\<lparr>lastSubmissionTime := f\<rparr>) (requestAuctionResultDecryption e b s)"
  by (cases "resolve (batchBids s b)")
     (auto simp: requestAuctionResultDecryption_def requestAuctionResultDecryption_body_def
      whenNotPaused_def onlyProvider_def requestDecryption_def emit_def
      decryptionRateLimited_def checked_add_def Let_def)

lemma submitBid_keeps_decryption_time:
  "submitBid e b x y s = Inr s' \<Longrightarrow> lastDecryptionRequestTime s' = lastDecryptionRequestTime s"
  by (auto simp: function_defs modifier_defs andThen_eq_Inr Let_def split: if_splits)

lemma request_keeps_submission_time:
  "requestAuctionResultDecryption e b s = Inr s' \<Longrightarrow> lastSubmissionTime s' = lastSubmissionTime s"
  by (auto dest!: request_success simp: request_post_def)

lemma fst_transact_map_sum:
  "dispatch e c s1 = map_sum id g (dispatch e c s2) \<Longrightarrow>
     fst (transact e c s1) = fst (transact e c s2)"
  by (simp add: transact_def split: sum.splits)

lemma checked_add_overflow:
  "2 ^ 256 \<le> unat a + unat b \<Longrightarrow> checked_add a b = Inl (Panic ArithmeticOverflow)"
  by (simp add: checked_add_def)

lemma submitBid_overflow:
  assumes "\<not> paused s"
      and "2 ^ 256 \<le> unat (lastSubmissionTime s (msg_sender e)) + unat (cooldownSeconds s)"
  shows "submitBid e b x y s = Inl (Panic ArithmeticOverflow)"
  using assms(1) checked_add_overflow [OF assms(2)]
  by (simp add: submitBid_def whenNotPaused_def submissionRateLimited_def)

lemma request_overflow:
  assumes "\<not> paused s"
      and "2 ^ 256 \<le> unat (lastDecryptionRequestTime s (msg_sender e)) + unat (cooldownSeconds s)"
  shows "requestAuctionResultDecryption e b s = Inl (Panic ArithmeticOverflow)"
  using assms(1) checked_add_overflow [OF assms(2)]
  by (simp add: requestAuctionResultDecryption_def whenNotPaused_def decryptionRateLimited_def)

lemma request_rejected:
  assumes "\<not> paused s" and "\<not> isl (decryptionRateLimited e s)"
      and "providers s (msg_sender e)" and "\<not> batchClosed s b \<or> batchBids s b = []"
  shows "requestAuctionResultDecryption e b s = Inl InvalidBatch"
proof -
  from assms(2) obtain s1 where s1: "decryptionRateLimited e s = Inr s1"
    by (cases "decryptionRateLimited e s") auto
  then have "s1 = s\<lparr>lastDecryptionRequestTime :=
                      (lastDecryptionRequestTime s)(msg_sender e := block_timestamp e)\<rparr>"
    by (auto simp: decryptionRateLimited_def andThen_eq_Inr split: if_splits)
  with assms(1,3,4) s1 show ?thesis
    by (auto simp: requestAuctionResultDecryption_def requestAuctionResultDecryption_body_def
        whenNotPaused_def onlyProvider_def)
qed

lemma dispatch_requested:
  "dispatch e c s = Inr s' \<Longrightarrow> \<forall>b. c \<noteq> RequestAuctionResultDecryption b \<Longrightarrow>
     requested s' = requested s"
  by (cases c)
     (auto simp: function_defs modifier_defs andThen_eq_Inr Let_def split: if_splits)


section \<open>The auction resolver\<close>

text \<open>
  C1. For every batch with at least two bids, the block that
  \<open>requestAuctionResultDecryption\<close> and \<open>myCallback\<close> run to find the winner returns the
  bid at the index \<open>k\<close> whose amount is greater than or equal to every bid's amount
  and strictly greater than the amount of every bid submitted after it: the last of
  the highest bids. In particular, when the amounts are 10, 30, 20, 30 in submission
  order, the bid at index 3 is returned.
\<close>

theorem resolver_selects_latest_highest:
  "(2 \<le> length (batchBids s b) \<longrightarrow>
      (\<exists>k. resolve (batchBids s b) = Inr (batchBids s b ! k)
           \<and> is_latest_highest (batchBids s b) k))
   \<and> (map amount (batchBids s b) = [10, 30, 20, 30] \<longrightarrow>
        resolve (batchBids s b) = Inr (batchBids s b ! 3))"
proof (intro conjI impI)
  assume "2 \<le> length (batchBids s b)"
  then have "batchBids s b \<noteq> []" by auto
  then show "\<exists>k. resolve (batchBids s b) = Inr (batchBids s b ! k)
           \<and> is_latest_highest (batchBids s b) k"
    by (rule resolve_is_latest_highest)
next
  assume "map amount (batchBids s b) = [10, 30, 20, 30]"
  then obtain b0 b1 b2 b3 where bids: "batchBids s b = [b0, b1, b2, b3]"
    and am: "amount b0 = 10" "amount b1 = 30" "amount b2 = 20" "amount b3 = 30"
    by (auto simp: map_eq_Cons_conv)
  from am show "resolve (batchBids s b) = Inr (batchBids s b ! 3)"
    unfolding bids by (simp add: resolve_def index_def scan_bids.simps ge_def amount_def)
qed

theorem resolver_selects_latest_highest_witness:
  "2 \<le> length (batchBids (deploy ex_env\<lparr>batchBids := (\<lambda>_. ex_bids)\<rparr>) 1)
   \<and> map amount (batchBids (deploy ex_env\<lparr>batchBids := (\<lambda>_. ex_bids)\<rparr>) 1) = [10, 30, 20, 30]
   \<and> resolve ex_bids = Inr (ex_bids ! 3)
   \<and> bidder (ex_bids ! 3) = 104"
  using resolver_selects_latest_highest [of "deploy ex_env\<lparr>batchBids := (\<lambda>_. ex_bids)\<rparr>" 1]
  by (simp add: ex_bids_def amount_def)

section \<open>Replay protection\<close>

text \<open>
  C2. For every request identifier \<open>r\<close> that the oracle has issued, if a call of
  \<open>myCallback\<close> for \<open>r\<close> succeeds, then \<open>processed\<close> was false before it and is true
  after it; after any further sequence of calls \<open>processed\<close> is still true, and every
  call of \<open>myCallback\<close> for \<open>r\<close>, whatever the caller, the cleartexts and the proof,
  fails with \<open>ReplayDetected\<close> and changes nothing. So the flag goes from false to
  true at most once.
\<close>

theorem processed_once:
  assumes "r < counterRequest s"
      and "fst (transact e (MyCallback r c p) s) = Success"
  shows "\<not> processed (decryptionContexts s r)
       \<and> processed (decryptionContexts (snd (transact e (MyCallback r c p) s)) r)
       \<and> processed (decryptionContexts (run (snd (transact e (MyCallback r c p) s)) tr) r)
       \<and> transact e' (MyCallback r c' p') (run (snd (transact e (MyCallback r c p) s)) tr)
           = (Reverted ReplayDetected, run (snd (transact e (MyCallback r c p) s)) tr)"
proof -
  from assms(2) obtain s' where s': "myCallback e r c p s = Inr s'"
    by (auto simp: transact_success)
  then have t: "snd (transact e (MyCallback r c p) s) = s'"
    by (simp add: transact_def)
  from myCallback_success [OF s'] assms(1)
  have a: "\<not> processed (decryptionContexts s r)" "processed (decryptionContexts s' r)"
       "r < counterRequest s'"
    by simp_all
  from run_keeps_processed [OF a(3) a(2), of tr]
  have b: "processed (decryptionContexts (run s' tr) r)" by simp
  from myCallback_replay [OF b, of e' c' p']
  have "transact e' (MyCallback r c' p') (run s' tr) = (Reverted ReplayDetected, run s' tr)"
    by (simp add: transact_def)
  with a b t show ?thesis by simp
qed

theorem processed_once_witness:
  "0 < counterRequest ex_pending
   \<and> fst (transact (at 9 1700000040) (MyCallback 0 ex_cleartexts [1]) ex_pending) = Success
   \<and> fst (transact (at 9 1700000041) (MyCallback 0 ex_cleartexts [1])
        (run (snd (transact (at 9 1700000040) (MyCallback 0 ex_cleartexts [1]) ex_pending))
           [(at 1 1700000050, RequestAuctionResultDecryption 1)])) = Reverted ReplayDetected"
proof -
  have h1: "0 < counterRequest ex_pending"
    by (simp add: ex_pending_def ex_trace_def eval_defs)
  have h2: "fst (transact (at 9 1700000040) (MyCallback 0 ex_cleartexts [1]) ex_pending) = Success"
    by (simp add: ex_pending_def ex_trace_def eval_defs)
  from processed_once [OF h1 h2, of "[(at 1 1700000050, RequestAuctionResultDecryption 1)]"
      "at 9 1700000041" ex_cleartexts "[1]"] h1 h2
  show ?thesis by simp
qed

section \<open>Failed calls\<close>

text \<open>
  C3, as amended. A \<open>submitBid\<close> call that passes the pause and cooldown checks and is
  then rejected with \<open>InvalidBatch\<close> because the batch is not active has written the
  call's timestamp into \<open>lastSubmissionTime\<close> of the caller when the batch check
  fails, but the revert undoes that write with the rest of the call: after the call
  the storage, and with it the caller's \<open>lastSubmissionTime\<close>, is what it was before.
  The failed submission does not consume the caller's cooldown window.
\<close>

theorem rejected_bid_keeps_timestamp:
  assumes "\<not> paused s"
      and "\<not> isl (submissionRateLimited e s)"
      and "\<not> batchActive s b"
  shows "submissionRateLimited e s =
           Inr (s\<lparr>lastSubmissionTime := (lastSubmissionTime s)(msg_sender e := block_timestamp e)\<rparr>)
       \<and> submitBid_body e b x y
            (s\<lparr>lastSubmissionTime := (lastSubmissionTime s)(msg_sender e := block_timestamp e)\<rparr>)
           = Inl InvalidBatch
       \<and> transact e (SubmitBid b x y) s = (Reverted InvalidBatch, s)
       \<and> lastSubmissionTime (snd (transact e (SubmitBid b x y) s)) (msg_sender e)
           = lastSubmissionTime s (msg_sender e)"
proof -
  let ?s1 = "s\<lparr>lastSubmissionTime := (lastSubmissionTime s)(msg_sender e := block_timestamp e)\<rparr>"
  from assms(2) have s1: "submissionRateLimited e s = Inr ?s1"
    by (auto simp: submissionRateLimited_def andThen_def split: if_splits sum.splits)
  from assms(3) have body: "submitBid_body e b x y ?s1 = Inl InvalidBatch"
    by (simp add: submitBid_body_def)
  with assms(1) s1 have "dispatch e (SubmitBid b x y) s = Inl InvalidBatch"
    by (simp add: submitBid_def whenNotPaused_def)
  then have "transact e (SubmitBid b x y) s = (Reverted InvalidBatch, s)"
    by (rule transact_Inl)
  with s1 body show ?thesis by simp
qed

theorem rejected_bid_keeps_timestamp_witness:
  "\<not> paused (deploy ex_env)
   \<and> \<not> isl (submissionRateLimited (at 2 1700000100) (deploy ex_env))
   \<and> \<not> batchActive (deploy ex_env) 7
   \<and> transact (at 2 1700000100) (SubmitBid 7 (Euint32 11 10) (Euint32 12 3)) (deploy ex_env)
       = (Reverted InvalidBatch, deploy ex_env)
   \<and> lastSubmissionTime (deploy ex_env) 2 = 0"
proof -
  have h1: "\<not> paused (deploy ex_env)" by (simp add: deploy_def)
  have h2: "\<not> isl (submissionRateLimited (at 2 1700000100) (deploy ex_env))"
    by (simp add: eval_defs)
  have h3: "\<not> batchActive (deploy ex_env) 7" by (simp add: deploy_def)
  have h4: "lastSubmissionTime (deploy ex_env) 2 = 0" by (simp add: deploy_def)
  from rejected_bid_keeps_timestamp [OF h1 h2 h3, of "Euint32 11 10" "Euint32 12 3"] h1 h2 h3 h4
  show ?thesis by simp
qed

text \<open>
  The claim as written fails: address 2 bids on batch 7, which was never opened, at
  time 1700000100 on the freshly deployed contract. The call passes the pause and
  cooldown checks and reverts with \<open>InvalidBatch\<close>, and the caller's
  \<open>lastSubmissionTime\<close> after the call is not the call's timestamp.
\<close>

theorem rejected_bid_consumes_cooldown_counterexample:
  "\<not> paused (deploy ex_env)
   \<and> \<not> isl (submissionRateLimited (at 2 1700000100) (deploy ex_env))
   \<and> fst (transact (at 2 1700000100) (SubmitBid 7 (Euint32 11 10) (Euint32 12 3)) (deploy ex_env))
       = Reverted InvalidBatch
   \<and> lastSubmissionTime
        (snd (transact (at 2 1700000100) (SubmitBid 7 (Euint32 11 10) (Euint32 12 3)) (deploy ex_env)))
        (msg_sender (at 2 1700000100))
       \<noteq> block_timestamp (at 2 1700000100)"
  by (simp add: eval_defs)

text \<open>
  C4. For every operation of the contract and every starting state, a call that
  fails, with a named error or with a panic, leaves the whole state unchanged: owner,
  providers, pause flag, cooldown, both timestamp maps, batch flags, bids and
  decryption contexts, as well as the event log and the oracle's requests.
\<close>

theorem failed_call_changes_nothing:
  "fst (transact e c s) = Reverted err \<Longrightarrow> snd (transact e c s) = s"
  by (simp add: transact_def split: sum.splits)

theorem failed_call_changes_nothing_witness:
  "fst (transact (at 2 1700000100) (TransferOwnership 2) (deploy ex_env)) = Reverted NotOwner
   \<and> snd (transact (at 2 1700000100) (TransferOwnership 2) (deploy ex_env)) = deploy ex_env"
proof -
  have h: "fst (transact (at 2 1700000100) (TransferOwnership 2) (deploy ex_env))
             = Reverted NotOwner"
    by (simp add: eval_defs)
  from failed_call_changes_nothing [OF h] h show ?thesis by simp
qed

section \<open>Batch lifecycle\<close>

text \<open>
  C5. In every state the contract reaches from its deployment, every batch is in
  exactly one of the states unopened (neither flag), active or closed, never both
  active and closed. A call either leaves a batch's state as it is, or is an
  \<open>openBatch\<close> of an unopened batch, which becomes active, or a \<open>closeBatch\<close> of an
  active batch, which becomes closed. \<open>openBatch\<close> of a batch that is active or
  closed never succeeds and changes nothing, and its error is \<open>InvalidBatch\<close> once
  the provider and pause guards that precede the check have passed. A closed batch
  stays closed, and a batch once opened is never unopened again.
\<close>

theorem batch_lifecycle:
  assumes "s = run (deploy d) tr"
  shows "\<not> (batchActive s b \<and> batchClosed s b)
       \<and> batch_state s b \<in> {Some Unopened, Some Active, Some Closed}
       \<and> (batch_state (snd (transact e c s)) b = batch_state s b
            \<or> (c = OpenBatch b \<and> batch_state s b = Some Unopened
                 \<and> batch_state (snd (transact e c s)) b = Some Active)
            \<or> (c = CloseBatch b \<and> batch_state s b = Some Active
                 \<and> batch_state (snd (transact e c s)) b = Some Closed))
       \<and> (batch_state s b \<in> {Some Active, Some Closed} \<longrightarrow>
             fst (transact e (OpenBatch b) s) \<noteq> Success
           \<and> snd (transact e (OpenBatch b) s) = s
           \<and> (providers s (msg_sender e) \<and> \<not> paused s \<longrightarrow>
                 fst (transact e (OpenBatch b) s) = Reverted InvalidBatch))
       \<and> (batch_state s b = Some Closed \<longrightarrow> batch_state (run s tr') b = Some Closed)
       \<and> (batch_state s b \<noteq> Some Unopened \<longrightarrow> batch_state (run s tr') b \<noteq> Some Unopened)"
proof -
  have inv: "no_overlap s"
    unfolding assms by (rule no_overlap_run [OF no_overlap_deploy])
  have 1: "\<not> (batchActive s b \<and> batchClosed s b)"
    using inv by (simp add: no_overlap_def)
  have 2: "batch_state s b \<in> {Some Unopened, Some Active, Some Closed}"
    using 1 by (auto simp: batch_state_def)
  have 4: "fst (transact e (OpenBatch b) s) \<noteq> Success
           \<and> snd (transact e (OpenBatch b) s) = s
           \<and> (providers s (msg_sender e) \<and> \<not> paused s \<longrightarrow>
                 fst (transact e (OpenBatch b) s) = Reverted InvalidBatch)"
    if "batch_state s b \<in> {Some Active, Some Closed}"
  proof -
    from that have "batchActive s b \<or> batchClosed s b"
      by (auto simp: batch_state_def split: if_splits)
    from openBatch_opened [OF this, of e] show ?thesis
      by (simp add: transact_def)
  qed
  show ?thesis
    using 1 2 transact_phase [OF inv, of e c b] 4
      closed_stays_closed [OF inv, of b tr'] opened_stays_opened [OF inv, of b tr']
    by blast
qed

theorem batch_lifecycle_witness:
  "ex_pending = run (deploy ex_env) ex_trace
   \<and> batch_state ex_pending 1 = Some Closed
   \<and> providers ex_pending (msg_sender (at 1 1700000040)) \<and> \<not> paused ex_pending
   \<and> fst (transact (at 1 1700000040) (OpenBatch 1) ex_pending) = Reverted InvalidBatch
   \<and> batch_state (run ex_pending [(at 1 1700000040, OpenBatch 1)]) 1 = Some Closed"
proof -
  have h1: "ex_pending = run (deploy ex_env) ex_trace" by (simp add: ex_pending_def)
  have h2: "batch_state ex_pending 1 = Some Closed"
    by (simp add: batch_state_def ex_pending_def ex_trace_def eval_defs)
  have h3: "providers ex_pending (msg_sender (at 1 1700000040)) \<and> \<not> paused ex_pending"
    by (simp add: ex_pending_def ex_trace_def eval_defs)
  from batch_lifecycle [OF h1, of 1 "at 1 1700000040" "OpenBatch 1"
      "[(at 1 1700000040, OpenBatch 1)]"] h1 h2 h3
  show ?thesis by simp
qed

section \<open>The callback\<close>

text \<open>
  C6. For every request identifier whose stored context is unprocessed, when the
  winner is re-selected in \<open>myCallback\<close> and the hash of its amount ciphertext, bound
  to the contract's address, differs from the stored \<open>stateHash\<close>, the callback fails
  with \<open>InvalidState\<close>, changes nothing, and \<open>processed\<close> stays false.
\<close>

theorem state_hash_mismatch_rejected:
  assumes "\<not> processed (decryptionContexts s r)"
      and "resolve (batchBids s (batchId (decryptionContexts s r))) = Inr w"
      and "hashCiphertexts e [toBytes32 (encryptedBidAmount w)]
             \<noteq> stateHash (decryptionContexts s r)"
  shows "transact e (MyCallback r c p) s = (Reverted InvalidState, s)
       \<and> \<not> processed (decryptionContexts (snd (transact e (MyCallback r c p) s)) r)"
  using assms by (simp add: transact_def myCallback_def Let_def)

theorem state_hash_mismatch_rejected_witness:
  "\<not> processed (decryptionContexts ex_batch0 5)
   \<and> resolve (batchBids ex_batch0 (batchId (decryptionContexts ex_batch0 5)))
       = Inr \<lparr>encryptedBidAmount = Euint32 11 10, encryptedTargetingScore = Euint32 12 3, bidder = 2\<rparr>
   \<and> hashCiphertexts (at 9 1700000040) [toBytes32 (Euint32 11 10)]
       \<noteq> stateHash (decryptionContexts ex_batch0 5)
   \<and> fst (transact (at 9 1700000040) (MyCallback 5 ex_cleartexts [1]) ex_batch0)
       = Reverted InvalidState"
proof -
  have h1: "\<not> processed (decryptionContexts ex_batch0 5)"
    by (simp add: ex_batch0_def eval_defs)
  have h2: "resolve (batchBids ex_batch0 (batchId (decryptionContexts ex_batch0 5)))
       = Inr \<lparr>encryptedBidAmount = Euint32 11 10, encryptedTargetingScore = Euint32 12 3, bidder = 2\<rparr>"
    by (simp add: ex_batch0_def eval_defs)
  have h3: "hashCiphertexts (at 9 1700000040)
              [toBytes32 (encryptedBidAmount
                 \<lparr>encryptedBidAmount = Euint32 11 10, encryptedTargetingScore = Euint32 12 3, bidder = 2\<rparr>)]
       \<noteq> stateHash (decryptionContexts ex_batch0 5)"
    by (simp add: ex_batch0_def eval_defs)
  from state_hash_mismatch_rejected [OF h1 h2 h3, of ex_cleartexts "[1]"] h1 h2 h3
  show ?thesis by simp
qed

text \<open>
  C9. \<open>myCallback\<close> has no pause, role or rate-limit guard: for every caller and every
  state it never fails with \<open>Paused\<close>, \<open>NotOwner\<close>, \<open>NotProvider\<close> or \<open>CooldownActive\<close>;
  the only named errors it fails with are \<open>ReplayDetected\<close>, \<open>InvalidState\<close> and
  \<open>InvalidProof\<close>; and its outcome with \<open>paused\<close> set is its outcome without, so a
  pause does not block the delivery of a pending callback.
\<close>

theorem callback_has_no_guard:
  "fst (transact e (MyCallback r c p) s) \<notin>
      {Reverted Paused, Reverted NotOwner, Reverted NotProvider, Reverted CooldownActive}
   \<and> (\<forall>err. fst (transact e (MyCallback r c p) s) = Reverted err \<and> named err \<longrightarrow>
          err \<in> {ReplayDetected, InvalidState, InvalidProof})
   \<and> fst (transact e (MyCallback r c p) (s\<lparr>paused := True\<rparr>))
       = fst (transact e (MyCallback r c p) s)"
proof (intro conjI allI impI)
  show "fst (transact e (MyCallback r c p) s) \<notin>
      {Reverted Paused, Reverted NotOwner, Reverted NotProvider, Reverted CooldownActive}"
    using myCallback_cases [of e r c p s] by (auto simp: transact_reverted)
next
  fix err assume "fst (transact e (MyCallback r c p) s) = Reverted err \<and> named err"
  then show "err \<in> {ReplayDetected, InvalidState, InvalidProof}"
    using myCallback_cases [of e r c p s err] by (auto simp: transact_reverted)
next
  show "fst (transact e (MyCallback r c p) (s\<lparr>paused := True\<rparr>))
          = fst (transact e (MyCallback r c p) s)"
    by (simp add: transact_def myCallback_paused split: sum.splits)
qed

theorem callback_has_no_guard_witness:
  "paused ex_paused
   \<and> fst (transact (at 9 1700000050) (MyCallback 0 ex_cleartexts [2]) ex_paused)
       = Reverted InvalidProof
   \<and> named InvalidProof
   \<and> InvalidProof \<in> {ReplayDetected, InvalidState, InvalidProof}
   \<and> fst (transact (at 9 1700000050) (MyCallback 0 ex_cleartexts [1]) ex_paused) = Success"
proof -
  have h: "fst (transact (at 9 1700000050) (MyCallback 0 ex_cleartexts [2]) ex_paused)
       = Reverted InvalidProof \<and> named InvalidProof"
    by (simp add: ex_paused_def ex_pending_def ex_trace_def eval_defs)
  have "paused ex_paused
      \<and> fst (transact (at 9 1700000050) (MyCallback 0 ex_cleartexts [1]) ex_paused) = Success"
    by (simp add: ex_paused_def ex_pending_def ex_trace_def eval_defs)
  with callback_has_no_guard [of "at 9 1700000050" 0 ex_cleartexts "[2]" ex_paused] h
  show ?thesis by simp
qed

text \<open>
  C10. For a request identifier with no stored context, \<open>myCallback\<close> reads the
  default context, whose batch is 0; if batch 0 has no bids, the number of bids is
  not 1, the scan branch reads \<open>batchBids[0][0]\<close> of an empty array, and the call
  aborts with the out-of-bounds panic, whatever the hash and the proof: none of
  the named checks is reached.
\<close>

theorem callback_without_context_panics:
  assumes "decryptionContexts s r = \<lparr>batchId = 0, stateHash = 0, processed = False\<rparr>"
      and "batchBids s 0 = []"
  shows "length (batchBids s (batchId (decryptionContexts s r))) \<noteq> 1
       \<and> transact e (MyCallback r c p) s = (Reverted (Panic IndexOutOfBounds), s)"
  using assms by (simp add: transact_def myCallback_def resolve_def index_def)

theorem callback_without_context_panics_witness:
  "decryptionContexts (deploy ex_env) 5 = \<lparr>batchId = 0, stateHash = 0, processed = False\<rparr>
   \<and> batchBids (deploy ex_env) 0 = []
   \<and> fst (transact ex_env (MyCallback 5 ex_cleartexts [1]) (deploy ex_env))
       = Reverted (Panic IndexOutOfBounds)"
  using callback_without_context_panics [of "deploy ex_env" 5 ex_env ex_cleartexts "[1]"]
  by (simp add: deploy_def)

section \<open>Rate limiting\<close>

text \<open>
  C7, as amended. In a call that reaches the limiter (the contract is not paused), and
  provided the sum of the caller's last timestamp and \<open>cooldownSeconds\<close> fits in a
  \<open>uint256\<close>: \<open>submitBid\<close> attempted strictly before \<open>lastSubmissionTime +
  cooldownSeconds\<close> fails with \<open>CooldownActive\<close>, and at exactly that time or later it
  passes the rate-limit check and does not fail with \<open>CooldownActive\<close>; the same
  holds for \<open>requestAuctionResultDecryption\<close> and \<open>lastDecryptionRequestTime\<close>.
  When the sum does not fit in a \<open>uint256\<close>, the call aborts with the
  arithmetic-overflow panic instead and changes nothing, for either limiter.
  The two limiters use separate timestamps: the outcome of \<open>submitBid\<close> does not
  depend on the decryption timestamps and the call never writes them, and the
  outcome of \<open>requestAuctionResultDecryption\<close> does not depend on the submission
  timestamps and the call never writes them.
\<close>

theorem rate_limits:
  "(\<not> paused s
      \<and> unat (lastSubmissionTime s (msg_sender e)) + unat (cooldownSeconds s) < 2 ^ 256 \<longrightarrow>
      (unat (block_timestamp e)
          < unat (lastSubmissionTime s (msg_sender e)) + unat (cooldownSeconds s) \<longrightarrow>
         transact e (SubmitBid b x y) s = (Reverted CooldownActive, s))
    \<and> (unat (lastSubmissionTime s (msg_sender e)) + unat (cooldownSeconds s)
          \<le> unat (block_timestamp e) \<longrightarrow>
         \<not> isl (submissionRateLimited e s)
         \<and> fst (transact e (SubmitBid b x y) s) \<noteq> Reverted CooldownActive))
   \<and> (\<not> paused s
      \<and> unat (lastDecryptionRequestTime s (msg_sender e)) + unat (cooldownSeconds s) < 2 ^ 256 \<longrightarrow>
      (unat (block_timestamp e)
          < unat (lastDecryptionRequestTime s (msg_sender e)) + unat (cooldownSeconds s) \<longrightarrow>
         transact e (RequestAuctionResultDecryption b) s = (Reverted CooldownActive, s))
    \<and> (unat (lastDecryptionRequestTime s (msg_sender e)) + unat (cooldownSeconds s)
          \<le> unat (block_timestamp e) \<longrightarrow>
         \<not> isl (decryptionRateLimited e s)
         \<and> fst (transact e (RequestAuctionResultDecryption b) s) \<noteq> Reverted CooldownActive))
   \<and> fst (transact e (SubmitBid b x y) (s\<lparr>lastDecryptionRequestTime := f\<rparr>))
       = fst (transact e (SubmitBid b x y) s)
   \<and> fst (transact e (RequestAuctionResultDecryption b) (s\<lparr>lastSubmissionTime := f\<rparr>))
       = fst (transact e (RequestAuctionResultDecryption b) s)
   \<and> lastDecryptionRequestTime (snd (transact e (SubmitBid b x y) s))
       = lastDecryptionRequestTime s
   \<and> lastSubmissionTime (snd (transact e (RequestAuctionResultDecryption b) s))
       = lastSubmissionTime s
   \<and> (\<not> paused s
      \<and> 2 ^ 256 \<le> unat (lastSubmissionTime s (msg_sender e)) + unat (cooldownSeconds s) \<longrightarrow>
      transact e (SubmitBid b x y) s = (Reverted (Panic ArithmeticOverflow), s))
   \<and> (\<not> paused s
      \<and> 2 ^ 256 \<le> unat (lastDecryptionRequestTime s (msg_sender e))
                   + unat (cooldownSeconds s) \<longrightarrow>
      transact e (RequestAuctionResultDecryption b) s = (Reverted (Panic ArithmeticOverflow), s))"
proof (intro conjI impI)
  assume a: "\<not> paused s
      \<and> unat (lastSubmissionTime s (msg_sender e)) + unat (cooldownSeconds s) < 2 ^ 256"
  then have lim: "submissionRateLimited e s =
     (if unat (block_timestamp e) < unat (lastSubmissionTime s (msg_sender e)) + unat (cooldownSeconds s)
      then Inl CooldownActive
      else Inr (s\<lparr>lastSubmissionTime := (lastSubmissionTime s)(msg_sender e := block_timestamp e)\<rparr>))"
    by (simp add: submissionRateLimited_no_overflow)
  {
    assume "unat (block_timestamp e)
          < unat (lastSubmissionTime s (msg_sender e)) + unat (cooldownSeconds s)"
    with a lim have "dispatch e (SubmitBid b x y) s = Inl CooldownActive"
      by (simp add: submitBid_def whenNotPaused_def)
    then show "transact e (SubmitBid b x y) s = (Reverted CooldownActive, s)"
      by (rule transact_Inl)
  }
  {
    assume "unat (lastSubmissionTime s (msg_sender e)) + unat (cooldownSeconds s)
          \<le> unat (block_timestamp e)"
    with lim have ok: "submissionRateLimited e s =
        Inr (s\<lparr>lastSubmissionTime := (lastSubmissionTime s)(msg_sender e := block_timestamp e)\<rparr>)"
      by simp
    then show "\<not> isl (submissionRateLimited e s)" by simp
    from submitBid_not_cooldown [OF ok]
    show "fst (transact e (SubmitBid b x y) s) \<noteq> Reverted CooldownActive"
      by (simp add: transact_reverted)
  }
next
  assume a: "\<not> paused s
      \<and> unat (lastDecryptionRequestTime s (msg_sender e)) + unat (cooldownSeconds s) < 2 ^ 256"
  then have lim: "decryptionRateLimited e s =
     (if unat (block_timestamp e) < unat (lastDecryptionRequestTime s (msg_sender e)) + unat (cooldownSeconds s)
      then Inl CooldownActive
      else Inr (s\<lparr>lastDecryptionRequestTime := (lastDecryptionRequestTime s)(msg_sender e := block_timestamp e)\<rparr>))"
    by (simp add: decryptionRateLimited_no_overflow)
  {
    assume "unat (block_timestamp e)
          < unat (lastDecryptionRequestTime s (msg_sender e)) + unat (cooldownSeconds s)"
    with a lim have "dispatch e (RequestAuctionResultDecryption b) s = Inl CooldownActive"
      by (simp add: requestAuctionResultDecryption_def whenNotPaused_def)
    then show "transact e (RequestAuctionResultDecryption b) s = (Reverted CooldownActive, s)"
      by (rule transact_Inl)
  }
  {
    assume "unat (lastDecryptionRequestTime s (msg_sender e)) + unat (cooldownSeconds s)
          \<le> unat (block_timestamp e)"
    with lim have ok: "decryptionRateLimited e s =
        Inr (s\<lparr>lastDecryptionRequestTime := (lastDecryptionRequestTime s)(msg_sender e := block_timestamp e)\<rparr>)"
      by simp
    then show "\<not> isl (decryptionRateLimited e s)" by simp
    from request_not_cooldown [OF ok]
    show "fst (transact e (RequestAuctionResultDecryption b) s) \<noteq> Reverted CooldownActive"
      by (simp add: transact_reverted)
  }
next
  show "fst (transact e (SubmitBid b x y) (s\<lparr>lastDecryptionRequestTime := f\<rparr>))
       = fst (transact e (SubmitBid b x y) s)"
    by (rule fst_transact_map_sum) (simp add: submitBid_other_timestamp)
next
  show "fst (transact e (RequestAuctionResultDecryption b) (s\<lparr>lastSubmissionTime := f\<rparr>))
       = fst (transact e (RequestAuctionResultDecryption b) s)"
    by (rule fst_transact_map_sum) (simp add: request_other_timestamp)
next
  show "lastDecryptionRequestTime (snd (transact e (SubmitBid b x y) s))
       = lastDecryptionRequestTime s"
    using submitBid_keeps_decryption_time [of e b x y s]
    by (simp add: transact_def split: sum.splits)
next
  show "lastSubmissionTime (snd (transact e (RequestAuctionResultDecryption b) s))
       = lastSubmissionTime s"
    using request_keeps_submission_time [of e b s]
    by (simp add: transact_def split: sum.splits)
next
  assume "\<not> paused s
      \<and> 2 ^ 256 \<le> unat (lastSubmissionTime s (msg_sender e)) + unat (cooldownSeconds s)"
  then have "dispatch e (SubmitBid b x y) s = Inl (Panic ArithmeticOverflow)"
    using submitBid_overflow [of s e b x y] by simp
  then show "transact e (SubmitBid b x y) s = (Reverted (Panic ArithmeticOverflow), s)"
    by (rule transact_Inl)
next
  assume "\<not> paused s
      \<and> 2 ^ 256 \<le> unat (lastDecryptionRequestTime s (msg_sender e))
                   + unat (cooldownSeconds s)"
  then have "dispatch e (RequestAuctionResultDecryption b) s = Inl (Panic ArithmeticOverflow)"
    using request_overflow [of s e b] by simp
  then show "transact e (RequestAuctionResultDecryption b) s
               = (Reverted (Panic ArithmeticOverflow), s)"
    by (rule transact_Inl)
qed

theorem rate_limits_witness:
  "\<not> paused ex_batch0
   \<and> unat (lastSubmissionTime ex_batch0 (msg_sender (at 2 1700000019)))
       + unat (cooldownSeconds ex_batch0) = 1700000020
   \<and> transact (at 2 1700000019) (SubmitBid 0 (Euint32 31 5) (Euint32 32 6)) ex_batch0
       = (Reverted CooldownActive, ex_batch0)
   \<and> fst (transact (at 2 1700000020) (SubmitBid 0 (Euint32 31 5) (Euint32 32 6)) ex_batch0)
       = Success
   \<and> \<not> paused ex_pending
   \<and> unat (lastDecryptionRequestTime ex_pending (msg_sender (at 1 1700000039)))
       + unat (cooldownSeconds ex_pending) = 1700000040
   \<and> transact (at 1 1700000039) (RequestAuctionResultDecryption 1) ex_pending
       = (Reverted CooldownActive, ex_pending)
   \<and> fst (transact (at 1 1700000040) (RequestAuctionResultDecryption 1) ex_pending) = Success
   \<and> \<not> paused ex_long_cooldown
   \<and> 2 ^ 256 \<le> unat (lastSubmissionTime ex_long_cooldown (msg_sender (at 2 1700000015)))
                  + unat (cooldownSeconds ex_long_cooldown)
   \<and> transact (at 2 1700000015) (SubmitBid 1 (Euint32 31 5) (Euint32 32 6)) ex_long_cooldown
       = (Reverted (Panic ArithmeticOverflow), ex_long_cooldown)
   \<and> \<not> paused ex_long_cooldown_pending
   \<and> 2 ^ 256 \<le> unat (lastDecryptionRequestTime ex_long_cooldown_pending
                          (msg_sender (at 1 1700000050)))
                  + unat (cooldownSeconds ex_long_cooldown_pending)
   \<and> transact (at 1 1700000050) (RequestAuctionResultDecryption 1) ex_long_cooldown_pending
       = (Reverted (Panic ArithmeticOverflow), ex_long_cooldown_pending)"
proof -
  have a: "\<not> paused ex_batch0"
      "unat (lastSubmissionTime ex_batch0 (msg_sender (at 2 1700000019)))
         + unat (cooldownSeconds ex_batch0) = 1700000020"
      "unat (block_timestamp (at 2 1700000019)) = 1700000019"
    by (simp_all add: ex_batch0_def eval_defs)
  have b: "\<not> paused ex_pending"
      "unat (lastDecryptionRequestTime ex_pending (msg_sender (at 1 1700000039)))
         + unat (cooldownSeconds ex_pending) = 1700000040"
      "unat (block_timestamp (at 1 1700000039)) = 1700000039"
    by (simp_all add: ex_pending_def ex_trace_def eval_defs)
  from rate_limits [of ex_batch0 "at 2 1700000019" 0 "Euint32 31 5" "Euint32 32 6" "\<lambda>_. 0"] a
  have c1: "transact (at 2 1700000019) (SubmitBid 0 (Euint32 31 5) (Euint32 32 6)) ex_batch0
       = (Reverted CooldownActive, ex_batch0)"
    by simp
  from rate_limits [of ex_pending "at 1 1700000039" 1 "Euint32 31 5" "Euint32 32 6" "\<lambda>_. 0"] b
  have c2: "transact (at 1 1700000039) (RequestAuctionResultDecryption 1) ex_pending
       = (Reverted CooldownActive, ex_pending)"
    by simp
  have c3: "fst (transact (at 2 1700000020) (SubmitBid 0 (Euint32 31 5) (Euint32 32 6)) ex_batch0)
       = Success"
    by (simp add: ex_batch0_def eval_defs)
  have c4: "fst (transact (at 1 1700000040) (RequestAuctionResultDecryption 1) ex_pending) = Success"
    by (simp add: ex_pending_def ex_trace_def eval_defs)
  have d: "\<not> paused ex_long_cooldown"
      "2 ^ 256 \<le> unat (lastSubmissionTime ex_long_cooldown (msg_sender (at 2 1700000015)))
                  + unat (cooldownSeconds ex_long_cooldown)"
    by (simp_all add: ex_long_cooldown_def eval_defs)
  have g: "\<not> paused ex_long_cooldown_pending"
      "2 ^ 256 \<le> unat (lastDecryptionRequestTime ex_long_cooldown_pending
                          (msg_sender (at 1 1700000050)))
                  + unat (cooldownSeconds ex_long_cooldown_pending)"
    by (simp_all add: ex_long_cooldown_pending_def ex_pending_def ex_trace_def eval_defs)
  from rate_limits [of ex_long_cooldown "at 2 1700000015" 1 "Euint32 31 5" "Euint32 32 6"
      "\<lambda>_. 0"] d
  have c5: "transact (at 2 1700000015) (SubmitBid 1 (Euint32 31 5) (Euint32 32 6))
              ex_long_cooldown
       = (Reverted (Panic ArithmeticOverflow), ex_long_cooldown)"
    by blast
  from rate_limits [of ex_long_cooldown_pending "at 1 1700000050" 1 "Euint32 31 5"
      "Euint32 32 6" "\<lambda>_. 0"] g
  have c6: "transact (at 1 1700000050) (RequestAuctionResultDecryption 1)
              ex_long_cooldown_pending
       = (Reverted (Panic ArithmeticOverflow), ex_long_cooldown_pending)"
    by blast
  from a b c1 c2 c3 c4 d g c5 c6 show ?thesis by blast
qed

text \<open>
  The claim as written fails when the sum overflows: after address 2 has bid at time
  1700000010 and the owner has set the cooldown to \<open>2^256 - 1\<close>, a bid of address 2 at
  time 1700000015 is strictly before the last timestamp plus the cooldown, and the
  call aborts with the arithmetic panic of the checked addition, not with
  \<open>CooldownActive\<close>.
\<close>

theorem overflowing_cooldown_counterexample:
  "\<not> paused ex_long_cooldown
   \<and> unat (block_timestamp (at 2 1700000015))
       < unat (lastSubmissionTime ex_long_cooldown (msg_sender (at 2 1700000015)))
         + unat (cooldownSeconds ex_long_cooldown)
   \<and> fst (transact (at 2 1700000015) (SubmitBid 1 (Euint32 11 10) (Euint32 12 3)) ex_long_cooldown)
       = Reverted (Panic ArithmeticOverflow)
   \<and> fst (transact (at 2 1700000015) (SubmitBid 1 (Euint32 11 10) (Euint32 12 3)) ex_long_cooldown)
       \<noteq> Reverted CooldownActive"
  by (simp add: ex_long_cooldown_def eval_defs)

section \<open>The decryption request\<close>

text \<open>
  C8. When \<open>requestAuctionResultDecryption\<close> succeeds, the batch is closed and has at
  least one bid, and the list of ciphertexts it hashes into the stored \<open>stateHash\<close>
  and submits to the oracle has exactly one element, the handle of the encrypted
  amount of the winning bid (the last of the highest bids): no targeting score and
  no losing bid. When the guards that precede the batch check have passed (not
  paused, cooldown elapsed, caller a provider) and the batch is not closed or has no
  bid, the call fails with \<open>InvalidBatch\<close>. No other operation submits anything to
  the oracle.
\<close>

theorem only_winning_amount_submitted:
  "(fst (transact e (RequestAuctionResultDecryption b) s) = Success \<longrightarrow>
      batchClosed s b \<and> batchBids s b \<noteq> []
      \<and> (\<exists>k cts. is_latest_highest (batchBids s b) k
            \<and> cts = [toBytes32 (encryptedBidAmount (batchBids s b ! k))]
            \<and> length cts = 1
            \<and> requested (snd (transact e (RequestAuctionResultDecryption b) s))
                = requested s @ [(counterRequest s, cts)]
            \<and> decryptionContexts (snd (transact e (RequestAuctionResultDecryption b) s))
                  (counterRequest s)
                = \<lparr>batchId = b, stateHash = hashCiphertexts e cts, processed = False\<rparr>))
   \<and> (\<not> paused s \<and> \<not> isl (decryptionRateLimited e s) \<and> providers s (msg_sender e)
        \<and> (\<not> batchClosed s b \<or> batchBids s b = []) \<longrightarrow>
        transact e (RequestAuctionResultDecryption b) s = (Reverted InvalidBatch, s))
   \<and> ((\<forall>b'. c \<noteq> RequestAuctionResultDecryption b') \<longrightarrow>
        requested (snd (transact e c s)) = requested s)"
proof (intro conjI impI)
  assume ok: "fst (transact e (RequestAuctionResultDecryption b) s) = Success"
  then obtain s' where s': "requestAuctionResultDecryption e b s = Inr s'"
    by (auto simp: transact_success)
  then have t: "snd (transact e (RequestAuctionResultDecryption b) s) = s'"
    by (simp add: transact_def)
  from request_success [OF s'] obtain w where
      w: "batchClosed s b" "batchBids s b \<noteq> []" "resolve (batchBids s b) = Inr w"
         "s' = request_post e b w s"
    by blast
  from resolve_is_latest_highest [OF w(2)] w(3) obtain k where
      k: "w = batchBids s b ! k" "is_latest_highest (batchBids s b) k"
    by auto
  show "batchClosed s b" by (rule w(1))
  show "batchBids s b \<noteq> []" by (rule w(2))
  show "\<exists>k cts. is_latest_highest (batchBids s b) k
            \<and> cts = [toBytes32 (encryptedBidAmount (batchBids s b ! k))]
            \<and> length cts = 1
            \<and> requested (snd (transact e (RequestAuctionResultDecryption b) s))
                = requested s @ [(counterRequest s, cts)]
            \<and> decryptionContexts (snd (transact e (RequestAuctionResultDecryption b) s))
                  (counterRequest s)
                = \<lparr>batchId = b, stateHash = hashCiphertexts e cts, processed = False\<rparr>"
    using k w(4) unfolding t by (intro exI [of _ k]) (simp add: request_post_def)
next
  assume "\<not> paused s \<and> \<not> isl (decryptionRateLimited e s) \<and> providers s (msg_sender e)
        \<and> (\<not> batchClosed s b \<or> batchBids s b = [])"
  then have "dispatch e (RequestAuctionResultDecryption b) s = Inl InvalidBatch"
    using request_rejected [of s e b] by simp
  then show "transact e (RequestAuctionResultDecryption b) s = (Reverted InvalidBatch, s)"
    by (rule transact_Inl)
next
  assume "\<forall>b'. c \<noteq> RequestAuctionResultDecryption b'"
  then show "requested (snd (transact e c s)) = requested s"
    using dispatch_requested [of e c s] by (simp add: transact_def split: sum.splits)
qed

theorem only_winning_amount_submitted_witness:
  "fst (transact (at 1 1700000040) (RequestAuctionResultDecryption 1) ex_pending) = Success
   \<and> requested (snd (transact (at 1 1700000040) (RequestAuctionResultDecryption 1) ex_pending))
       = requested ex_pending @ [(1, [toBytes32 (Euint32 21 30)])]
   \<and> \<not> paused ex_batch0 \<and> \<not> isl (decryptionRateLimited (at 1 1700000040) ex_batch0)
   \<and> providers ex_batch0 (msg_sender (at 1 1700000040))
   \<and> \<not> batchClosed ex_batch0 0
   \<and> transact (at 1 1700000040) (RequestAuctionResultDecryption 0) ex_batch0
       = (Reverted InvalidBatch, ex_batch0)
   \<and> requested (snd (transact (at 1 1700000040) (OpenBatch 5) ex_batch0)) = requested ex_batch0"
proof -
  have h1: "fst (transact (at 1 1700000040) (RequestAuctionResultDecryption 1) ex_pending) = Success"
    by (simp add: ex_pending_def ex_trace_def eval_defs)
  have h2: "\<not> paused ex_batch0" "\<not> isl (decryptionRateLimited (at 1 1700000040) ex_batch0)"
      "providers ex_batch0 (msg_sender (at 1 1700000040))" "\<not> batchClosed ex_batch0 0"
    by (simp_all add: ex_batch0_def eval_defs)
  have h3: "requested (snd (transact (at 1 1700000040) (RequestAuctionResultDecryption 1) ex_pending))
       = requested ex_pending @ [(1, [toBytes32 (Euint32 21 30)])]"
    by (simp add: ex_pending_def ex_trace_def eval_defs)
  have h4: "\<forall>b'. OpenBatch 5 \<noteq> RequestAuctionResultDecryption b'" by simp
  from only_winning_amount_submitted [of "at 1 1700000040" 0 ex_batch0 "OpenBatch 5"] h2 h4
  have "transact (at 1 1700000040) (RequestAuctionResultDecryption 0) ex_batch0
       = (Reverted InvalidBatch, ex_batch0)
     \<and> requested (snd (transact (at 1 1700000040) (OpenBatch 5) ex_batch0)) = requested ex_batch0"
    by blast
  with h1 h2 h3 show ?thesis by blast
qed

end
